theory Spec2Isabelle
  imports Complex_Main
begin

section \<open>Values exchanged with the collaborators\<close>

text \<open>
  The exam taker is an event-driven JavaScript program: an \<open>ExamTaker\<close> object owns a
  \<open>VisionAnalyzer\<close> and a \<open>RemotelyClient\<close>, reacts to screenshots pushed by the remote
  session and talks to a vision/reasoning model, a knowledge search and a web search.
  Numbers that arrive in model answers (JSON) may be missing: a confidence is a
  \<open>real option\<close>, and the comparisons below are JavaScript's, where a comparison with
  \<open>undefined\<close> is false. Time stamps are left out of all payloads, and an event carries
  the fields of its payload that identify it. The model client, the knowledge search and
  the web search are collaborators: a call to one of them is a request in the trace, and
  its answer is an input.
\<close>

type_synonym image = string
type_synonym uuid = nat
type_synonym coords = "int \<times> int"

definition js_lt :: "real option \<Rightarrow> real \<Rightarrow> bool" where
  "js_lt a b = (case a of None \<Rightarrow> False | Some x \<Rightarrow> x < b)"

definition js_ge :: "real option \<Rightarrow> real \<Rightarrow> bool" where
  "js_ge a b = (case a of None \<Rightarrow> False | Some x \<Rightarrow> b \<le> x)"

definition truthy :: "string option \<Rightarrow> bool" where
  "truthy v = (case v of None \<Rightarrow> False | Some t \<Rightarrow> t \<noteq> [])"

record ans_option =
  opt_text :: string
  opt_position :: coords
  opt_identifier :: string

text \<open>The parsed answer of \<open>OllamaClient.analyzeExamScreen\<close>.\<close>

record analysis =
  an_question :: "string option"
  an_question_type :: string
  an_options :: "ans_option list option"
  an_confidence :: "real option"

text \<open>The payload of the analyzer's \<open>question_detected\<close> event.\<close>

record question_data =
  qd_question :: string
  qd_type :: string
  qd_options :: "ans_option list option"
  qd_confidence :: "real option"

record rag_result =
  rr_content :: string
  rr_score :: real

record web_result =
  wr_extractedAnswer :: "string option"
  wr_confidence :: real

record reasoning_result =
  rs_answer :: "string option"
  rs_confidence :: "real option"
  rs_reasoning :: string

record coordinate_result =
  cr_coordinates :: "coords option"
  cr_confidence :: "real option"

record answer_data =
  ad_answer :: "string option"
  ad_confidence :: "real option"
  ad_source :: string

record uncertainty_data =
  ud_question :: "string option"
  ud_answer :: "string option"
  ud_confidence :: "real option"
  ud_error :: "string option"
  ud_reason :: "string option"

text \<open>\<open>ExamTaker.currentQuestion\<close>; its status is the string the source assigns.\<close>

record question =
  q_id :: uuid
  q_question :: string
  q_type :: string
  q_options :: "ans_option list option"
  q_status :: string
  q_answer :: "string option"
  q_confidence :: "real option"
  q_source :: "string option"
  q_uncertainty :: "uncertainty_data option"

text \<open>An entry of \<open>questionHistory\<close>: the current question spread, plus the coordinates.\<close>

record history_entry =
  h_question :: "question option"
  h_coordinates :: coords

section \<open>Observable effects\<close>

datatype log_level = LInfo | LWarn | LError | LDebug

datatype ws_message =
  MouseMove int int "string option"
| MouseClick int int string "string option"
| KeyPress string "string list" "string option"
| KeyDown string "string option"
| KeyUp string "string option"
| TextInput string "string option"

text \<open>Requests to the collaborators whose answer arrives later (a suspended \<open>await\<close>).\<close>

datatype request =
  AnalyzeExamScreen image
| RagSearch string nat "string option"
| WebSearch string string
| ReasonAboutAnswer string "ans_option list" string
| FindAnswerCoordinates analysis image "string option"

datatype adapter_call =
  ClickAnswer coords

datatype io_event =
  Io_screenshot image
| Io_screen_analysis analysis
| Io_question_detected question
| Io_ai_reasoning string nat
| Io_answer_found "question option" answer_data
| Io_ai_uncertainty uncertainty_data
| Io_manual_override_changed bool
| Io_action_executed coords "question option"
| Io_exam_started uuid
| Io_exam_stopped "uuid option" nat
| Io_rdp_connected "string option"
| Io_debug_log log_level string

datatype va_event =
  Va_question_detected question_data
| Va_answer_found answer_data
| Va_uncertainty uncertainty_data
| Va_ai_reasoning reasoning_result

datatype effect =
  IoEmit io_event
| VaEmit va_event
| Log log_level string
| Request nat request
| Invoke adapter_call
| WsSend ws_message
| Sleep nat
| ClearInterval

section \<open>The logger\<close>

text \<open>
  All modules share one \<open>Logger\<close>. Its level comes from the configuration (\<open>None\<close> for a
  level name it does not know, which filters every line), and the server hands it the
  socket of the observers. In the trace, \<open>Log\<close> records the call of \<open>logger.info\<close>,
  \<open>logger.warn\<close>, \<open>logger.error\<close> or \<open>logger.debug\<close> with the text the source passes.
  \<open>Logger.log\<close> then decides what the call makes visible: nothing when the level filters
  the line, and otherwise a line on the console and in the log file and, when the socket
  is set, a \<open>debug_log\<close> event for the observers.
\<close>

record logger_state =
  logLevel :: "log_level option"
  socketIO :: bool

fun level_rank :: "log_level \<Rightarrow> nat" where
  "level_rank LError = 0"
| "level_rank LWarn = 1"
| "level_rank LInfo = 2"
| "level_rank LDebug = 3"

definition shouldLog :: "logger_state \<Rightarrow> log_level \<Rightarrow> bool" where
  "shouldLog lg level =
     (case logLevel lg of None \<Rightarrow> False | Some l \<Rightarrow> level_rank level \<le> level_rank l)"

definition Logger_log :: "logger_state \<Rightarrow> log_level \<Rightarrow> string \<Rightarrow> effect list" where
  "Logger_log lg level message =
     Log level message #
     (if shouldLog lg level \<and> socketIO lg then [IoEmit (Io_debug_log level message)] else [])"

section \<open>RemotelyClient: the remote-session adapter\<close>

record remotely_client =
  ws :: bool
  rc_connected :: bool
  rc_sessionId :: "string option"

text \<open>
  \<open>ws\<close> says whether the socket object exists. The operations change no field of the
  client; each takes the state of the logger and returns the effects it causes and, where
  the source returns a value, the result: \<open>Inl\<close> for a thrown error, \<open>Inr\<close> for the
  returned object.
\<close>

definition sendMessage :: "logger_state \<Rightarrow> remotely_client \<Rightarrow> ws_message \<Rightarrow> effect list" where
  "sendMessage lg rc m =
     (if ws rc \<and> rc_connected rc then [WsSend m]
      else Logger_log lg LWarn ''Cannot send message: not connected to Remotely'')"

definition sendMouseClick :: "logger_state \<Rightarrow> remotely_client \<Rightarrow> int \<Rightarrow> int \<Rightarrow> string \<Rightarrow> effect list" where
  "sendMouseClick lg rc x y button =
     sendMessage lg rc (MouseClick x y button (rc_sessionId rc)) @ Logger_log lg LDebug ''Sent mouse click:''"

definition sendMouseMove :: "logger_state \<Rightarrow> remotely_client \<Rightarrow> int \<Rightarrow> int \<Rightarrow> effect list" where
  "sendMouseMove lg rc x y = sendMessage lg rc (MouseMove x y (rc_sessionId rc))"





record click_options =
  doubleClick :: bool
  click_delay :: nat

definition default_click_options :: click_options where
  "default_click_options = \<lparr>doubleClick = False, click_delay = 100\<rparr>"



datatype adapter_result =
  Clicked coords
| Typed string
| Dragged coords coords

definition clickAnswer ::
  "logger_state \<Rightarrow> remotely_client \<Rightarrow> coords \<Rightarrow> click_options \<Rightarrow> effect list \<times> (string + adapter_result)" where
  "clickAnswer lg rc c opts =
     (case c of (x, y) \<Rightarrow>
       (sendMouseMove lg rc x y @ [Sleep (click_delay opts)] @
        (if doubleClick opts
         then sendMouseClick lg rc x y ''left'' @ [Sleep 50] @ sendMouseClick lg rc x y ''left''
         else sendMouseClick lg rc x y ''left'') @
        Logger_log lg LInfo ''Answer clicked via Remotely:'',
        Inr (Clicked (x, y))))"



section \<open>Configuration and state of the exam taker\<close>

record ai_config =
  confidence_threshold :: real
  screenshot_analysis_delay :: nat

record rag_config =
  similarity_threshold :: real
  max_results :: nat

record config =
  ai :: ai_config
  rag :: rag_config
  rdp_screenshotInterval :: nat

text \<open>The values of \<open>config.json\<close>; the server may replace them while it runs.\<close>

definition config_json :: config where
  "config_json =
     \<lparr>ai = \<lparr>confidence_threshold = 8 / 10, screenshot_analysis_delay = 2000\<rparr>,
      rag = \<lparr>similarity_threshold = 7 / 10, max_results = 5\<rparr>,
      rdp_screenshotInterval = 1000\<rparr>"

record web_search_client =
  firecrawlEnabled :: bool
  tullyEnabled :: bool
  firecrawlApiKey :: string
  tullyApiKey :: string

definition isConfigured :: "web_search_client \<Rightarrow> bool" where
  "isConfigured w =
     ((firecrawlEnabled w \<and> firecrawlApiKey w \<noteq> []) \<or> (tullyEnabled w \<and> tullyApiKey w \<noteq> []))"

record vision_analyzer =
  webSearchClient :: web_search_client
  lastAnalysis :: "(analysis \<times> image) option"
  analysisHistory :: "(analysis \<times> image) list"

text \<open>
  An \<open>await\<close> on a collaborator suspends the running handler; what remains of it is a
  continuation, kept with the number of the request it waits for.
\<close>

datatype cont =
  K_analyzeScreen image
| K_handleQuestionDetected question_data
| K_executeAnswer answer_data
| K_findAnswer analysis
| K_findAnswer_web analysis "rag_result list"
| K_findAnswer_reason analysis

text \<open>
  The fields of \<open>ExamTaker\<close>, the configuration and the logger its module reads, then what
  the model adds: the effects so far, the suspended continuations, the next request number
  and the supply \<open>uuidv4\<close> draws from.
\<close>

record exam_taker =
  sessionId :: "string option"
  examId :: "uuid option"
  isActive :: bool
  manualOverride :: bool
  connected :: bool
  currentExamType :: string
  visionAnalyzer :: vision_analyzer
  remotelyClient :: remotely_client
  currentQuestion :: "question option"
  questionHistory :: "history_entry list"
  screenshotInterval :: "nat option"
  lastScreenshot :: "image option"
  config :: config
  loggerState :: logger_state
  trace :: "effect list"
  pending :: "(nat \<times> cont) list"
  nextRequest :: nat
  uuidSupply :: nat

text \<open>The constructor, for a given configuration, web-search client and logger.\<close>

definition new_ExamTaker :: "config \<Rightarrow> web_search_client \<Rightarrow> logger_state \<Rightarrow> exam_taker" where
  "new_ExamTaker cfg w lg =
     \<lparr>sessionId = None, examId = None, isActive = False, manualOverride = False,
      connected = False, currentExamType = ''general'',
      visionAnalyzer = \<lparr>webSearchClient = w, lastAnalysis = None, analysisHistory = []\<rparr>,
      remotelyClient = \<lparr>ws = False, rc_connected = False, rc_sessionId = None\<rparr>,
      currentQuestion = None, questionHistory = [], screenshotInterval = None,
      lastScreenshot = None, config = cfg, loggerState = lg, trace = [], pending = [], nextRequest = 0,
      uuidSupply = 0\<rparr>"

definition effects :: "effect list \<Rightarrow> exam_taker \<Rightarrow> exam_taker" where
  "effects es s = s\<lparr>trace := trace s @ es\<rparr>"

definition emit_io :: "io_event \<Rightarrow> exam_taker \<Rightarrow> exam_taker" where
  "emit_io e s = effects [IoEmit e] s"

definition emit_va :: "va_event \<Rightarrow> exam_taker \<Rightarrow> exam_taker" where
  "emit_va e s = effects [VaEmit e] s"

definition logger :: "log_level \<Rightarrow> string \<Rightarrow> exam_taker \<Rightarrow> exam_taker" where
  "logger l m s = effects (Logger_log (loggerState s) l m) s"

text \<open>Issuing a request and suspending on it.\<close>

definition suspend :: "request \<Rightarrow> cont \<Rightarrow> exam_taker \<Rightarrow> exam_taker" where
  "suspend r k s =
     s\<lparr>trace := trace s @ [Request (nextRequest s) r],
       pending := pending s @ [(nextRequest s, k)],
       nextRequest := Suc (nextRequest s)\<rparr>"

definition uuidv4 :: "exam_taker \<Rightarrow> uuid \<times> exam_taker" where
  "uuidv4 s = (uuidSupply s, s\<lparr>uuidSupply := Suc (uuidSupply s)\<rparr>)"

text \<open>The effects a handler added: the trace of the later state beyond the earlier one's.\<close>

definition new_effects :: "exam_taker \<Rightarrow> exam_taker \<Rightarrow> effect list" where
  "new_effects s s' = drop (length (trace s)) (trace s')"

section \<open>Session control\<close>

text \<open>
  \<open>connectRDP\<close>, given how \<open>RemotelyClient.connect\<close> ended: with an error, or with the
  session id it generated. On success the client marks itself connected and emits
  \<open>connected\<close>, whose listener sets the exam taker's own flag.
\<close>

definition connectRDP :: "string + string \<Rightarrow> exam_taker \<Rightarrow> exam_taker \<times> (string + string)" where
  "connectRDP outcome s =
     (let s1 = logger LInfo ''Attempting Remotely connection to device:'' s in
      case outcome of
        Inl err \<Rightarrow> (logger LError ''Remotely connection failed:'' s1, Inl err)
      | Inr sid \<Rightarrow>
          (let s2 = s1\<lparr>remotelyClient :=
                        (remotelyClient s1)\<lparr>rc_connected := True, rc_sessionId := Some sid\<rparr>\<rparr>;
               s3 = emit_io (Io_rdp_connected (Some sid)) (s2\<lparr>connected := True\<rparr>);
               s4 = logger LInfo ''Remotely connected successfully. Session ID:''
                      (s3\<lparr>sessionId := Some sid\<rparr>);
               s5 = s4\<lparr>screenshotInterval := Some (rdp_screenshotInterval (config s4))\<rparr>
           in (s5, Inr sid)))"

definition startExam :: "exam_taker \<Rightarrow> exam_taker \<times> (string + uuid)" where
  "startExam s =
     (if \<not> connected s
      then (logger LError ''Failed to start exam:'' s, Inl ''No active RDP connection'')
      else
        (case uuidv4 s of (uid, s1) \<Rightarrow>
          (let s2 = s1\<lparr>examId := Some uid, isActive := True, questionHistory := []\<rparr>;
               s3 = emit_io (Io_exam_started uid) s2;
               s4 = logger LInfo ''Exam started. Exam ID:'' s3
           in (s4, Inr uid))))"

definition stopExam :: "exam_taker \<Rightarrow> exam_taker" where
  "stopExam s =
     (let s1 = s\<lparr>isActive := False\<rparr>;
          s2 = (case screenshotInterval s1 of
                  None \<Rightarrow> s1
                | Some t \<Rightarrow> (effects [ClearInterval] s1)\<lparr>screenshotInterval := None\<rparr>);
          s3 = emit_io (Io_exam_stopped (examId s2) (length (questionHistory s2))) s2
      in logger LInfo ''Exam stopped. Questions answered:'' s3)"

definition setManualOverride :: "bool \<Rightarrow> exam_taker \<Rightarrow> exam_taker" where
  "setManualOverride enabled s =
     logger LInfo (if enabled then ''Manual override enabled'' else ''Manual override disabled'')
       (emit_io (Io_manual_override_changed enabled) (s\<lparr>manualOverride := enabled\<rparr>))"

section \<open>Resolution and execution\<close>

definition handleUncertainty :: "uncertainty_data \<Rightarrow> exam_taker \<Rightarrow> exam_taker" where
  "handleUncertainty ud s =
     (let s1 = logger LWarn ''AI uncertainty detected:'' s;
          s2 = emit_io (Io_ai_uncertainty ud) s1;
          s3 = setManualOverride True s2
      in case currentQuestion s3 of
           None \<Rightarrow> s3
         | Some q \<Rightarrow>
             s3\<lparr>currentQuestion := Some (q\<lparr>q_status := ''uncertain'', q_uncertainty := Some ud\<rparr>)\<rparr>)"

text \<open>The \<open>catch\<close> of \<open>executeAnswer\<close>, and the payload it reports.\<close>

definition execution_failed :: "question option \<Rightarrow> string \<Rightarrow> uncertainty_data" where
  "execution_failed q msg =
     \<lparr>ud_question = map_option q_question q, ud_answer = None, ud_confidence = None,
      ud_error = Some msg, ud_reason = Some ''Execution failed''\<rparr>"

definition executeAnswer_failed :: "string \<Rightarrow> exam_taker \<Rightarrow> exam_taker" where
  "executeAnswer_failed msg s =
     handleUncertainty (execution_failed (currentQuestion s) msg)
       (logger LError ''Failed to execute answer:'' s)"

text \<open>
  \<open>executeAnswer\<close> up to the request for the coordinates, which
  \<open>VisionAnalyzer.findAnswerCoordinates\<close> sends with the last analysis it stored.
\<close>

definition executeAnswer :: "answer_data \<Rightarrow> exam_taker \<Rightarrow> exam_taker" where
  "executeAnswer ad s =
     (let s1 = logger LInfo ''Executing answer:'' s in
      case lastAnalysis (visionAnalyzer s1) of
        None \<Rightarrow>
          executeAnswer_failed ''No recent screen analysis available''
            (logger LError ''Failed to find answer coordinates:'' s1)
      | Some la \<Rightarrow>
          suspend (FindAnswerCoordinates (fst la) (snd la) (ad_answer ad)) (K_executeAnswer ad)
            (logger LInfo ''Finding coordinates for answer:'' s1))"

text \<open>The rest of \<open>executeAnswer\<close>, once the model answered (or the call failed).\<close>

definition executeAnswer_resume ::
  "answer_data \<Rightarrow> string + coordinate_result \<Rightarrow> exam_taker \<Rightarrow> exam_taker" where
  "executeAnswer_resume ad resp s =
     (case resp of
        Inl err \<Rightarrow>
          executeAnswer_failed err (logger LError ''Failed to find answer coordinates:'' s)
      | Inr cr \<Rightarrow>
          if js_lt (cr_confidence cr) (1 / 2)
          then executeAnswer_failed ''Low confidence in coordinate detection''
                 (logger LError ''Failed to find answer coordinates:'' s)
          else
            (let s1 = logger LInfo ''Answer coordinates found:'' s in
             case cr_coordinates cr of
               None \<Rightarrow>
                 executeAnswer_failed ''Could not determine click coordinates for answer'' s1
             | Some c \<Rightarrow>
                 (case clickAnswer (loggerState s1) (remotelyClient s1) c default_click_options of
                    (fx, Inl err) \<Rightarrow> executeAnswer_failed err (effects (Invoke (ClickAnswer c) # fx) s1)
                  | (fx, Inr r) \<Rightarrow>
                      (let s2 = effects (Invoke (ClickAnswer c) # fx) s1;
                           s3 = effects [Sleep (screenshot_analysis_delay (ai (config s2)))] s2;
                           s4 = s3\<lparr>questionHistory := questionHistory s3 @
                                  [\<lparr>h_question = currentQuestion s3, h_coordinates = c\<rparr>]\<rparr>;
                           s5 = emit_io (Io_action_executed c (currentQuestion s4)) s4
                       in logger LInfo ''Answer executed successfully via Remotely at'' s5))))"

definition handleAnswerFound :: "answer_data \<Rightarrow> exam_taker \<Rightarrow> exam_taker" where
  "handleAnswerFound ad s =
     (let s1 = logger LInfo ''Answer found:'' s;
          s2 = (case currentQuestion s1 of
                  None \<Rightarrow> s1
                | Some q \<Rightarrow>
                    s1\<lparr>currentQuestion := Some (q\<lparr>q_answer := ad_answer ad,
                         q_confidence := ad_confidence ad, q_source := Some (ad_source ad),
                         q_status := ''answered''\<rparr>)\<rparr>);
          s3 = emit_io (Io_answer_found (currentQuestion s2) ad) s2
      in if js_ge (ad_confidence ad) (confidence_threshold (ai (config s3)))
         then executeAnswer ad s3
         else handleUncertainty
                \<lparr>ud_question = map_option q_question (currentQuestion s3),
                 ud_answer = ad_answer ad, ud_confidence = ad_confidence ad,
                 ud_error = None, ud_reason = Some ''Low confidence''\<rparr> s3)"

text \<open>\<open>searchOnlineForAnswer\<close>, a placeholder in the source, and the payload it reports.\<close>

definition not_in_knowledge_base :: "string \<Rightarrow> uncertainty_data" where
  "not_in_knowledge_base q =
     \<lparr>ud_question = Some q, ud_answer = None, ud_confidence = None, ud_error = None,
      ud_reason = Some ''Answer not found in knowledge base, online search not implemented yet''\<rparr>"

definition searchOnlineForAnswer :: "string \<Rightarrow> exam_taker \<Rightarrow> exam_taker" where
  "searchOnlineForAnswer q s =
     handleUncertainty (not_in_knowledge_base q) (logger LInfo ''Searching online for answer:'' s)"

text \<open>\<open>handleQuestionDetected\<close> up to the knowledge search it awaits.\<close>

definition handleQuestionDetected :: "question_data \<Rightarrow> exam_taker \<Rightarrow> exam_taker" where
  "handleQuestionDetected qd s =
     (let s1 = logger LInfo ''Question detected:'' s in
      case uuidv4 s1 of (uid, s2) \<Rightarrow>
        (let q = \<lparr>q_id = uid, q_question = qd_question qd, q_type = qd_type qd,
                  q_options = qd_options qd, q_status = ''analyzing'', q_answer = None,
                  q_confidence = None, q_source = None, q_uncertainty = None\<rparr>;
             s3 = s2\<lparr>currentQuestion := Some q\<rparr>;
             s4 = emit_io (Io_question_detected q) s3
         in suspend (RagSearch (qd_question qd) 5 (Some (currentExamType s4)))
              (K_handleQuestionDetected qd) s4))"

text \<open>The rest of it, once the search returned its results or threw.\<close>

definition detection_failed :: "question_data \<Rightarrow> string \<Rightarrow> uncertainty_data" where
  "detection_failed qd err =
     \<lparr>ud_question = Some (qd_question qd), ud_answer = None, ud_confidence = None,
      ud_error = Some err, ud_reason = None\<rparr>"

definition handleQuestionDetected_resume ::
  "question_data \<Rightarrow> string + rag_result list \<Rightarrow> exam_taker \<Rightarrow> exam_taker" where
  "handleQuestionDetected_resume qd resp s =
     (case resp of
        Inl err \<Rightarrow>
          handleUncertainty (detection_failed qd err)
            (logger LError ''Error handling question detection:'' s)
      | Inr ragResults \<Rightarrow>
          (let s1 = emit_io (Io_ai_reasoning (currentExamType s) (length ragResults)) s in
           case ragResults of
             [] \<Rightarrow> searchOnlineForAnswer (qd_question qd) s1
           | r # rest \<Rightarrow>
               if similarity_threshold (rag (config s1)) < rr_score r
               then handleAnswerFound
                      \<lparr>ad_answer = Some (rr_content r), ad_confidence = Some (rr_score r),
                       ad_source = ''rag_'' @ currentExamType s1\<rparr> s1
               else searchOnlineForAnswer (qd_question qd) s1))"

section \<open>VisionAnalyzer and the screenshot handler\<close>

text \<open>
  \<open>findAnswer\<close> is only reached from \<open>handleRemotelyScreenshot\<close>, through \<open>analyzeScreen\<close>
  and \<open>processAnalysis\<close>. When it is over, control returns through both to the screenshot
  handler, which broadcasts the analysis: every path below that completes ends with
  \<open>handleRemotelyScreenshot_finish\<close>, and a path that suspends does not.
\<close>

definition handleRemotelyScreenshot_finish :: "analysis \<Rightarrow> exam_taker \<Rightarrow> exam_taker" where
  "handleRemotelyScreenshot_finish a s = emit_io (Io_screen_analysis a) s"

definition question_text :: "analysis \<Rightarrow> string" where
  "question_text a = (case an_question a of None \<Rightarrow> [] | Some q \<Rightarrow> q)"

definition option_list :: "analysis \<Rightarrow> ans_option list" where
  "option_list a = (case an_options a of None \<Rightarrow> [] | Some os \<Rightarrow> os)"

fun join :: "string \<Rightarrow> string list \<Rightarrow> string" where
  "join sep [] = []"
| "join sep [x] = x"
| "join sep (x # y # zs) = x @ sep @ join sep (y # zs)"

text \<open>The \<open>catch\<close> of \<open>findAnswer\<close>; the analyzer's event runs \<open>handleUncertainty\<close>.\<close>

definition search_failed :: "analysis \<Rightarrow> string \<Rightarrow> uncertainty_data" where
  "search_failed a err =
     \<lparr>ud_question = an_question a, ud_answer = None, ud_confidence = None,
      ud_error = Some err, ud_reason = Some ''Answer search failed''\<rparr>"

definition findAnswer_failed :: "analysis \<Rightarrow> string \<Rightarrow> exam_taker \<Rightarrow> exam_taker" where
  "findAnswer_failed a err s =
     (let ud = search_failed a err;
          s1 = logger LError ''Error finding answer:'' s;
          s2 = handleUncertainty ud (emit_va (Va_uncertainty ud) s1)
      in handleRemotelyScreenshot_finish a s2)"

text \<open>Its last statement: the \<open>answer_found\<close> event, whose listener is \<open>handleAnswerFound\<close>.\<close>

definition findAnswer_found ::
  "analysis \<Rightarrow> string option \<Rightarrow> real option \<Rightarrow> string \<Rightarrow> exam_taker \<Rightarrow> exam_taker" where
  "findAnswer_found a bestAnswer confidence answerSource s =
     (let ad = \<lparr>ad_answer = bestAnswer, ad_confidence = confidence, ad_source = answerSource\<rparr>;
          s1 = handleAnswerFound ad (emit_va (Va_answer_found ad) s)
      in handleRemotelyScreenshot_finish a s1)"

definition findAnswer :: "analysis \<Rightarrow> exam_taker \<Rightarrow> exam_taker" where
  "findAnswer a s =
     suspend (RagSearch (question_text a) (max_results (rag (config s))) None) (K_findAnswer a)
       (logger LInfo ''Finding answer for question:'' s)"

text \<open>The reasoning stage: the request, with the context gathered so far.\<close>

definition contextData :: "rag_result list \<Rightarrow> web_result list \<Rightarrow> string list" where
  "contextData ragResults webSearchResults =
     (case ragResults of [] \<Rightarrow> [] | r # rest \<Rightarrow> [rr_content r]) @
     (case webSearchResults of
        [] \<Rightarrow> []
      | w # rest \<Rightarrow> [case wr_extractedAnswer w of None \<Rightarrow> [] | Some t \<Rightarrow> t])"

definition reasoning_request :: "analysis \<Rightarrow> rag_result list \<Rightarrow> web_result list \<Rightarrow> request" where
  "reasoning_request a ragResults webSearchResults =
     ReasonAboutAnswer (question_text a) (option_list a)
       (join [CHR 0x0A, CHR 0x0A] (contextData ragResults webSearchResults))"

definition findAnswer_reason ::
  "analysis \<Rightarrow> rag_result list \<Rightarrow> web_result list \<Rightarrow> exam_taker \<Rightarrow> exam_taker" where
  "findAnswer_reason a ragResults webSearchResults s =
     suspend (reasoning_request a ragResults webSearchResults) (K_findAnswer_reason a) s"

definition findAnswer_ragDone ::
  "analysis \<Rightarrow> string + rag_result list \<Rightarrow> exam_taker \<Rightarrow> exam_taker" where
  "findAnswer_ragDone a resp s =
     (case resp of
        Inl err \<Rightarrow> findAnswer_failed a err s
      | Inr ragResults \<Rightarrow>
          if ragResults \<noteq> [] \<and> similarity_threshold (rag (config s)) < rr_score (hd ragResults)
          then findAnswer_found a (Some (rr_content (hd ragResults)))
                 (Some (rr_score (hd ragResults))) ''rag''
                 (logger LInfo ''Answer found in RAG system:'' s)
          else if isConfigured (webSearchClient (visionAnalyzer s))
          then suspend (WebSearch (question_text a) (an_question_type a))
                 (K_findAnswer_web a ragResults) s
          else findAnswer_reason a ragResults [] s)"

definition findAnswer_webDone ::
  "analysis \<Rightarrow> rag_result list \<Rightarrow> string + web_result list \<Rightarrow> exam_taker \<Rightarrow> exam_taker" where
  "findAnswer_webDone a ragResults resp s =
     (case resp of
        Inl err \<Rightarrow> findAnswer_reason a ragResults [] (logger LError ''Web search failed:'' s)
      | Inr webSearchResults \<Rightarrow>
          if webSearchResults \<noteq> [] \<and> 6 / 10 < wr_confidence (hd webSearchResults)
          then
            (let s1 = logger LInfo ''Answer found via web search:'' s in
             if \<not> truthy (wr_extractedAnswer (hd webSearchResults))
                \<or> wr_confidence (hd webSearchResults) < 6 / 10
             then findAnswer_reason a ragResults webSearchResults s1
             else findAnswer_found a (wr_extractedAnswer (hd webSearchResults))
                    (Some (wr_confidence (hd webSearchResults))) ''web_search'' s1)
          else findAnswer_reason a ragResults webSearchResults s)"

definition findAnswer_reasonDone ::
  "analysis \<Rightarrow> string + reasoning_result \<Rightarrow> exam_taker \<Rightarrow> exam_taker" where
  "findAnswer_reasonDone a resp s =
     (case resp of
        Inl err \<Rightarrow> findAnswer_failed a err s
      | Inr reasoningResult \<Rightarrow>
          (let s1 = logger LInfo ''Answer determined by AI reasoning:'' s;
               s2 = emit_va (Va_ai_reasoning reasoningResult) s1
           in findAnswer_found a (rs_answer reasoningResult) (rs_confidence reasoningResult)
                ''reasoning'' s2))"

text \<open>
  \<open>processAnalysis\<close>: the detection floor, the \<open>question_detected\<close> event (whose listener
  is \<open>handleQuestionDetected\<close>, running until its own search is sent), then \<open>findAnswer\<close>
  when the question has options. Its \<open>catch\<close>, like that of \<open>handleAnswerFound\<close>, guards
  calls that handle their own errors, and has no branch here.
\<close>

definition processAnalysis :: "analysis \<Rightarrow> exam_taker \<Rightarrow> exam_taker" where
  "processAnalysis a s =
     (if \<not> truthy (an_question a) \<or> js_lt (an_confidence a) (1 / 2)
      then handleRemotelyScreenshot_finish a
             (logger LWarn ''Low confidence or no question detected:'' s)
      else
        (let qd = \<lparr>qd_question = question_text a, qd_type = an_question_type a,
                   qd_options = an_options a, qd_confidence = an_confidence a\<rparr>;
             s1 = handleQuestionDetected qd (emit_va (Va_question_detected qd) s)
         in case an_options a of
              Some (opt # rest) \<Rightarrow> findAnswer a s1
            | _ \<Rightarrow> handleRemotelyScreenshot_finish a s1))"

definition analyzeScreen :: "image \<Rightarrow> exam_taker \<Rightarrow> exam_taker" where
  "analyzeScreen img s =
     suspend (AnalyzeExamScreen img) (K_analyzeScreen img)
       (logger LInfo ''Starting screen analysis...'' s)"

definition analyzeScreen_resume :: "image \<Rightarrow> string + analysis \<Rightarrow> exam_taker \<Rightarrow> exam_taker" where
  "analyzeScreen_resume img resp s =
     (case resp of
        Inl err \<Rightarrow>
          logger LError ''Screenshot analysis failed:'' (logger LError ''Screen analysis failed:'' s)
      | Inr a \<Rightarrow>
          (let va = visionAnalyzer s;
               h = analysisHistory va @ [(a, img)];
               s1 = s\<lparr>visionAnalyzer := va\<lparr>lastAnalysis := Some (a, img),
                         analysisHistory := (if 10 < length h then tl h else h)\<rparr>\<rparr>;
               s2 = logger LInfo ''Screen analysis completed:'' s1
           in processAnalysis a s2))"

text \<open>\<open>handleRemotelyScreenshot\<close> up to the vision request that \<open>analyzeScreen\<close> sends.\<close>

definition handleRemotelyScreenshot :: "image \<Rightarrow> exam_taker \<Rightarrow> exam_taker" where
  "handleRemotelyScreenshot img s =
     (if \<not> isActive s \<or> manualOverride s
      then emit_io (Io_screenshot img) s
      else analyzeScreen img (emit_io (Io_screenshot img) (s\<lparr>lastScreenshot := Some img\<rparr>)))"

section \<open>The event loop\<close>

text \<open>
  What a collaborator answers to a request: the call is rejected (a timeout, a network
  error, an answer that does not parse), or it returns a value of the request's kind.
\<close>

datatype response =
  Rejected string
| Analysed analysis
| RagResults "rag_result list"
| WebResults "web_result list"
| Reasoned reasoning_result
| Located coordinate_result

definition as_analysis :: "response \<Rightarrow> (string + analysis) option" where
  "as_analysis r = (case r of Rejected e \<Rightarrow> Some (Inl e) | Analysed a \<Rightarrow> Some (Inr a) | _ \<Rightarrow> None)"

definition as_rag :: "response \<Rightarrow> (string + rag_result list) option" where
  "as_rag r = (case r of Rejected e \<Rightarrow> Some (Inl e) | RagResults x \<Rightarrow> Some (Inr x) | _ \<Rightarrow> None)"

definition as_web :: "response \<Rightarrow> (string + web_result list) option" where
  "as_web r = (case r of Rejected e \<Rightarrow> Some (Inl e) | WebResults x \<Rightarrow> Some (Inr x) | _ \<Rightarrow> None)"

definition as_reasoning :: "response \<Rightarrow> (string + reasoning_result) option" where
  "as_reasoning r = (case r of Rejected e \<Rightarrow> Some (Inl e) | Reasoned x \<Rightarrow> Some (Inr x) | _ \<Rightarrow> None)"

definition as_coordinates :: "response \<Rightarrow> (string + coordinate_result) option" where
  "as_coordinates r = (case r of Rejected e \<Rightarrow> Some (Inl e) | Located x \<Rightarrow> Some (Inr x) | _ \<Rightarrow> None)"

text \<open>Running a continuation on the answer it waited for; \<open>None\<close> for an answer of another kind.\<close>

definition resume :: "cont \<Rightarrow> response \<Rightarrow> exam_taker \<Rightarrow> exam_taker option" where
  "resume k r s =
     (case k of
        K_analyzeScreen img \<Rightarrow> map_option (\<lambda>x. analyzeScreen_resume img x s) (as_analysis r)
      | K_handleQuestionDetected qd \<Rightarrow>
          map_option (\<lambda>x. handleQuestionDetected_resume qd x s) (as_rag r)
      | K_executeAnswer ad \<Rightarrow> map_option (\<lambda>x. executeAnswer_resume ad x s) (as_coordinates r)
      | K_findAnswer a \<Rightarrow> map_option (\<lambda>x. findAnswer_ragDone a x s) (as_rag r)
      | K_findAnswer_web a rs \<Rightarrow> map_option (\<lambda>x. findAnswer_webDone a rs x s) (as_web r)
      | K_findAnswer_reason a \<Rightarrow> map_option (\<lambda>x. findAnswer_reasonDone a x s) (as_reasoning r))"

datatype event =
  Connect "string + string"
| StartExam
| StopExam
| SetManualOverride bool
| Screenshot image
| Response nat response

text \<open>
  One turn of the event loop. A response to a request that is not pending, or of the
  wrong kind, changes nothing.
\<close>

definition step :: "event \<Rightarrow> exam_taker \<Rightarrow> exam_taker" where
  "step e s =
     (case e of
        Connect outcome \<Rightarrow> fst (connectRDP outcome s)
      | StartExam \<Rightarrow> fst (startExam s)
      | StopExam \<Rightarrow> stopExam s
      | SetManualOverride b \<Rightarrow> setManualOverride b s
      | Screenshot img \<Rightarrow> handleRemotelyScreenshot img s
      | Response n r \<Rightarrow>
          (case map_of (pending s) n of
             None \<Rightarrow> s
           | Some k \<Rightarrow>
               (case resume k r (s\<lparr>pending := filter (\<lambda>p. fst p \<noteq> n) (pending s)\<rparr>) of
                  None \<Rightarrow> s
                | Some s' \<Rightarrow> s')))"

fun run :: "event list \<Rightarrow> exam_taker \<Rightarrow> exam_taker" where
  "run [] s = s"
| "run (e # es) s = run es (step e s)"

section \<open>Reading a trace\<close>

fun is_injection :: "effect \<Rightarrow> bool" where
  "is_injection (Invoke c) = True"
| "is_injection (WsSend m) = True"
| "is_injection e = False"

fun is_ws_send :: "effect \<Rightarrow> bool" where
  "is_ws_send (WsSend m) = True"
| "is_ws_send e = False"

fun is_request :: "effect \<Rightarrow> bool" where
  "is_request (Request n r) = True"
| "is_request e = False"

fun is_reasoner_request :: "effect \<Rightarrow> bool" where
  "is_reasoner_request (Request n (ReasonAboutAnswer q os c)) = True"
| "is_reasoner_request e = False"

fun is_io_emit :: "effect \<Rightarrow> bool" where
  "is_io_emit (IoEmit e) = True"
| "is_io_emit e = False"

text \<open>What one event adds to the trace, and what it leaves behind.\<close>

record observed =
  override_before :: bool
  added :: "effect list"
  override_after :: bool
  waiting :: "(nat \<times> cont) list"
  current :: "question option"
  history :: "history_entry list"

definition reaction :: "event \<Rightarrow> exam_taker \<Rightarrow> observed" where
  "reaction e s =
     (let s' = step e s
      in \<lparr>override_before = manualOverride s, added = new_effects s s',
          override_after = manualOverride s', waiting = pending s',
          current = currentQuestion s', history = questionHistory s'\<rparr>)"

text \<open>A web result that \<open>findAnswer\<close> takes as the answer.\<close>

definition usable_web :: "web_result list \<Rightarrow> bool" where
  "usable_web webSearchResults =
     (webSearchResults \<noteq> [] \<and> 6 / 10 < wr_confidence (hd webSearchResults)
      \<and> truthy (wr_extractedAnswer (hd webSearchResults)))"

text \<open>No knowledge result above the similarity threshold.\<close>

definition no_hit :: "exam_taker \<Rightarrow> rag_result list \<Rightarrow> bool" where
  "no_hit s ragResults =
     (ragResults = [] \<or> rr_score (hd ragResults) \<le> similarity_threshold (rag (config s)))"

definition reasoner_attempted :: "exam_taker \<Rightarrow> bool" where
  "reasoner_attempted s = list_ex is_reasoner_request (trace s)"

text \<open>
  What a run of screenshots, each handed to the analyzer at once, adds to the trace and to
  the suspended continuations, from request number \<open>n\<close> on.
\<close>

fun screenshot_effects :: "logger_state \<Rightarrow> nat \<Rightarrow> image list \<Rightarrow> effect list" where
  "screenshot_effects lg n [] = []"
| "screenshot_effects lg n (img # imgs) =
     IoEmit (Io_screenshot img) # Logger_log lg LInfo ''Starting screen analysis...'' @
     Request n (AnalyzeExamScreen img) # screenshot_effects lg (Suc n) imgs"

fun screenshot_pending :: "nat \<Rightarrow> image list \<Rightarrow> (nat \<times> cont) list" where
  "screenshot_pending n [] = []"
| "screenshot_pending n (img # imgs) = (n, K_analyzeScreen img) # screenshot_pending (Suc n) imgs"

text \<open>
  The error with which \<open>executeAnswer\<close> fails before any click, given the answer to its
  coordinate request: the call failed, the model was not confident, or it gave no
  coordinates. \<open>None\<close> when the click goes ahead.
\<close>

definition execution_error :: "string + coordinate_result \<Rightarrow> string option" where
  "execution_error resp =
     (case resp of
        Inl err \<Rightarrow> Some err
      | Inr cr \<Rightarrow>
          if js_lt (cr_confidence cr) (1 / 2) then Some ''Low confidence in coordinate detection''
          else if cr_coordinates cr = None
          then Some ''Could not determine click coordinates for answer''
          else None)"

section \<open>Sample inputs\<close>

definition sample_web :: web_search_client where
  "sample_web =
     \<lparr>firecrawlEnabled = True, tullyEnabled = False, firecrawlApiKey = [], tullyApiKey = []\<rparr>"

text \<open>The logger as the server runs it: level \<open>info\<close>, with the observers' socket set.\<close>

definition app_logger :: logger_state where
  "app_logger = \<lparr>logLevel = Some LInfo, socketIO = True\<rparr>"

definition fresh_taker :: exam_taker where
  "fresh_taker = new_ExamTaker config_json sample_web app_logger"

definition paris_option :: ans_option where
  "paris_option = \<lparr>opt_text = ''Paris'', opt_position = (10, 20), opt_identifier = ''A''\<rparr>"

definition paris_analysis :: analysis where
  "paris_analysis =
     \<lparr>an_question = Some ''Capital of France?'', an_question_type = ''multiple_choice'',
      an_options = Some [paris_option], an_confidence = Some (9 / 10)\<rparr>"

definition bare_analysis :: analysis where
  "bare_analysis =
     \<lparr>an_question = Some ''Name the capital of France.'', an_question_type = ''short_answer'',
      an_options = None, an_confidence = Some (9 / 10)\<rparr>"

definition faint_analysis :: analysis where
  "faint_analysis =
     \<lparr>an_question = Some ''Capital of France?'', an_question_type = ''multiple_choice'',
      an_options = Some [paris_option], an_confidence = Some (3 / 10)\<rparr>"

definition paris_reasoned :: reasoning_result where
  "paris_reasoned =
     \<lparr>rs_answer = Some ''Paris'', rs_confidence = Some (95 / 100), rs_reasoning = ''known fact''\<rparr>"

definition paris_located :: coordinate_result where
  "paris_located = \<lparr>cr_coordinates = Some (10, 20), cr_confidence = Some (9 / 10)\<rparr>"

definition nowhere_located :: coordinate_result where
  "nowhere_located = \<lparr>cr_coordinates = None, cr_confidence = Some (9 / 10)\<rparr>"

definition low_answer :: answer_data where
  "low_answer = \<lparr>ad_answer = Some ''B'', ad_confidence = Some (55 / 100), ad_source = ''reasoning''\<rparr>"

definition paris_question :: question where
  "paris_question =
     \<lparr>q_id = 1, q_question = ''Capital of France?'', q_type = ''multiple_choice'',
      q_options = Some [paris_option], q_status = ''answered'', q_answer = Some ''Paris'',
      q_confidence = Some (95 / 100), q_source = Some ''reasoning'', q_uncertainty = None\<rparr>"

definition paris_data :: question_data where
  "paris_data =
     \<lparr>qd_question = ''Capital of France?'', qd_type = ''multiple_choice'',
      qd_options = Some [paris_option], qd_confidence = Some (9 / 10)\<rparr>"


text \<open>A session that is connected and has started an exam.\<close>

definition started_taker :: exam_taker where
  "started_taker = run [Connect (Inr ''viewer_1''), StartExam] fresh_taker"

text \<open>The same session with one screenshot handed to the analyzer (request 0).\<close>

definition watching_taker :: exam_taker where
  "watching_taker = run [Screenshot ''img1''] started_taker"

text \<open>
  The same session after one screenshot showing \<open>paris_analysis\<close>: the exam taker's own
  knowledge search (request 1) and the analyzer's (request 2) are both outstanding.
\<close>

definition resolving_taker :: exam_taker where
  "resolving_taker = run [Screenshot ''img1'', Response 0 (Analysed paris_analysis)] started_taker"

text \<open>
  Then the exam taker's search finds nothing (which enables manual override), the
  analyzer's search finds nothing either, and the reasoner answers with confidence 0.95:
  the coordinates of the answer are requested (request 4).
\<close>

definition executing_taker :: exam_taker where
  "executing_taker =
     run [Response 1 (RagResults []), Response 2 (RagResults []), Response 3 (Reasoned paris_reasoned)]
       resolving_taker"

text \<open>The coordinates arrive and the click is made: one question is in the history.\<close>

definition answered_taker :: exam_taker where
  "answered_taker = run [Response 4 (Located paris_located)] executing_taker"

text \<open>A started session whose operator has taken control.\<close>

definition overridden_taker :: exam_taker where
  "overridden_taker = step (SetManualOverride True) started_taker"

text \<open>A started session shown a question without options (its search is request 1).\<close>

definition bare_taker :: exam_taker where
  "bare_taker = run [Screenshot ''img1'', Response 0 (Analysed bare_analysis)] started_taker"

section \<open>Basic facts\<close>

lemmas prims = effects_def emit_io_def emit_va_def logger_def suspend_def uuidv4_def

lemma Log_in_Logger_log [simp]:
  "(Log l m \<in> set (Logger_log lg l' m')) = (l = l' \<and> m = m')"
  by (auto simp add: Logger_log_def)

lemma IoEmit_in_Logger_log [simp]:
  "(IoEmit e \<in> set (Logger_log lg l m)) = (e = Io_debug_log l m \<and> shouldLog lg l \<and> socketIO lg)"
  by (auto simp add: Logger_log_def)

lemma no_action_in_Logger_log [simp]:
  "list_ex is_injection (Logger_log lg l m) = False"
  "list_ex is_ws_send (Logger_log lg l m) = False"
  "list_ex is_request (Logger_log lg l m) = False"
  "list_ex is_reasoner_request (Logger_log lg l m) = False"
  by (simp_all add: Logger_log_def)

lemma handleUncertainty_eq:
  "handleUncertainty ud s =
     s\<lparr>manualOverride := True,
       currentQuestion :=
         map_option (\<lambda>q. q\<lparr>q_status := ''uncertain'', q_uncertainty := Some ud\<rparr>) (currentQuestion s),
       trace := trace s @
         Logger_log (loggerState s) LWarn ''AI uncertainty detected:'' @
         [IoEmit (Io_ai_uncertainty ud), IoEmit (Io_manual_override_changed True)] @
         Logger_log (loggerState s) LInfo ''Manual override enabled''\<rparr>"
  by (cases "currentQuestion s")
     (simp_all add: handleUncertainty_def setManualOverride_def prims Let_def)

lemma step_Screenshot_override:
  "manualOverride s \<Longrightarrow>
   step (Screenshot img) s = s\<lparr>trace := trace s @ [IoEmit (Io_screenshot img)]\<rparr>"
  by (simp add: step_def handleRemotelyScreenshot_def prims)

lemma step_Screenshot_active:
  "isActive s \<Longrightarrow> \<not> manualOverride s \<Longrightarrow>
   step (Screenshot img) s =
     s\<lparr>lastScreenshot := Some img,
       trace := trace s @ IoEmit (Io_screenshot img) #
                Logger_log (loggerState s) LInfo ''Starting screen analysis...'' @
                [Request (nextRequest s) (AnalyzeExamScreen img)],
       pending := pending s @ [(nextRequest s, K_analyzeScreen img)],
       nextRequest := Suc (nextRequest s)\<rparr>"
  by (simp add: step_def handleRemotelyScreenshot_def analyzeScreen_def prims)

lemma findAnswer_failed_eq:
  "findAnswer_failed a err s =
     s\<lparr>manualOverride := True,
       currentQuestion :=
         map_option (\<lambda>q. q\<lparr>q_status := ''uncertain'', q_uncertainty := Some (search_failed a err)\<rparr>)
           (currentQuestion s),
       trace := trace s @
         Logger_log (loggerState s) LError ''Error finding answer:'' @
         VaEmit (Va_uncertainty (search_failed a err)) #
         Logger_log (loggerState s) LWarn ''AI uncertainty detected:'' @
         [IoEmit (Io_ai_uncertainty (search_failed a err)),
          IoEmit (Io_manual_override_changed True)] @
         Logger_log (loggerState s) LInfo ''Manual override enabled'' @
         [IoEmit (Io_screen_analysis a)]\<rparr>"
  by (simp add: findAnswer_failed_def handleUncertainty_eq handleRemotelyScreenshot_finish_def
        prims Let_def)

lemma handleAnswerFound_no_reasoner:
  "\<not> list_ex is_reasoner_request (new_effects s (handleAnswerFound ad s))"
  by (cases "lastAnalysis (visionAnalyzer s)"; cases "currentQuestion s")
     (simp_all add: handleAnswerFound_def executeAnswer_def executeAnswer_failed_def
        handleUncertainty_eq new_effects_def prims Let_def)

lemma trace_handleAnswerFound:
  "trace (handleAnswerFound ad s) = trace s @ new_effects s (handleAnswerFound ad s)"
  by (cases "lastAnalysis (visionAnalyzer s)"; cases "currentQuestion s")
     (simp_all add: handleAnswerFound_def executeAnswer_def executeAnswer_failed_def
        handleUncertainty_eq new_effects_def prims Let_def)

lemma started_facts:
  "isActive started_taker \<and> \<not> manualOverride started_taker \<and> nextRequest started_taker = 0
   \<and> pending started_taker = []"
  by (simp add: started_taker_def fresh_taker_def new_ExamTaker_def step_def connectRDP_def
        startExam_def prims Let_def)

section \<open>The confidence gate\<close>



section \<open>Manual override\<close>

text \<open>
  C2, as the code has it. While manual override is enabled, every incoming screenshot is
  only forwarded to the observers: a run of screenshots adds one \<open>screenshot\<close> event each and
  changes nothing else, so none of them is interpreted and none starts a resolution or an
  input injection.
\<close>

theorem override_screenshots:
  "manualOverride s \<Longrightarrow>
   run (map Screenshot imgs) s =
     s\<lparr>trace := trace s @ map (\<lambda>img. IoEmit (Io_screenshot img)) imgs\<rparr>"
proof (induction imgs arbitrary: s)
  case Nil
  then show ?case by simp
next
  case (Cons img imgs)
  let ?s1 = "s\<lparr>trace := trace s @ [IoEmit (Io_screenshot img)]\<rparr>"
  have "manualOverride ?s1" using Cons.prems by simp
  from Cons.IH [OF this] show ?case
    using Cons.prems by (simp add: step_Screenshot_override)
qed

theorem override_screenshots_witness:
  "manualOverride overridden_taker
   \<and> run (map Screenshot [''img2'', ''img3'']) overridden_taker =
       overridden_taker\<lparr>trace := trace overridden_taker @
         [IoEmit (Io_screenshot ''img2''), IoEmit (Io_screenshot ''img3'')]\<rparr>"
proof -
  have on: "manualOverride overridden_taker"
    by (simp add: overridden_taker_def step_def setManualOverride_def prims)
  from override_screenshots [OF on, of "[''img2'', ''img3'']"] on show ?thesis
    by simp
qed

text \<open>
  The claim fails twice in the session \<open>executing_taker\<close>, where override is on and a
  resolution is in flight: the next screenshot is not interpreted (no request follows it),
  and when the coordinates of the in-flight answer arrive the click is still made.
\<close>

theorem override_counterexample:
  "(let r = reaction (Screenshot ''img2'') executing_taker
    in override_before r \<and> override_after r \<and> added r = [IoEmit (Io_screenshot ''img2'')])
   \<and> (let r = reaction (Response 4 (Located paris_located)) executing_taker
       in override_before r \<and> override_after r \<and> Invoke (ClickAnswer (10, 20)) \<in> set (added r))"
  by code_simp

section \<open>Input injection without a connection\<close>




section \<open>The fallback chain\<close>

text \<open>
  C4, as the code has it. When the knowledge search of \<open>handleQuestionDetected\<close> has no
  result above the similarity threshold, the question goes through the online-search
  placeholder straight to uncertainty: the effects are the search summary, two log lines,
  the \<open>ai_uncertainty\<close> event saying that the answer is not in the knowledge base, and the
  override change with its log line. No request is sent, the Reasoner included, nothing
  is left suspended, override is on and the question is marked uncertain. The Reasoner is
  requested by \<open>findAnswer\<close> only. After a knowledge search without a hit it sends one
  request: the web search when that is configured, the Reasoner otherwise. After the web
  search has answered, the Reasoner is requested exactly when the web answer is not usable.
\<close>

theorem no_hit_goes_uncertain:
  "no_hit s ragResults \<Longrightarrow>
   new_effects s (handleQuestionDetected_resume qd (Inr ragResults) s) =
     IoEmit (Io_ai_reasoning (currentExamType s) (length ragResults)) #
     Logger_log (loggerState s) LInfo ''Searching online for answer:'' @
     Logger_log (loggerState s) LWarn ''AI uncertainty detected:'' @
     [IoEmit (Io_ai_uncertainty (not_in_knowledge_base (qd_question qd))),
      IoEmit (Io_manual_override_changed True)] @
     Logger_log (loggerState s) LInfo ''Manual override enabled''
   \<and> IoEmit (Io_ai_uncertainty (not_in_knowledge_base (qd_question qd)))
       \<in> set (new_effects s (handleQuestionDetected_resume qd (Inr ragResults) s))
   \<and> \<not> list_ex is_request (new_effects s (handleQuestionDetected_resume qd (Inr ragResults) s))
   \<and> pending (handleQuestionDetected_resume qd (Inr ragResults) s) = pending s
   \<and> manualOverride (handleQuestionDetected_resume qd (Inr ragResults) s)
   \<and> currentQuestion (handleQuestionDetected_resume qd (Inr ragResults) s) =
       map_option (\<lambda>q. q\<lparr>q_status := ''uncertain'',
                          q_uncertainty := Some (not_in_knowledge_base (qd_question qd))\<rparr>)
         (currentQuestion s)
   \<and> new_effects s (findAnswer_ragDone a (Inr ragResults) s) =
       [Request (nextRequest s)
          (if isConfigured (webSearchClient (visionAnalyzer s))
           then WebSearch (question_text a) (an_question_type a)
           else reasoning_request a ragResults [])]
   \<and> pending (findAnswer_ragDone a (Inr ragResults) s) =
       pending s @
       [(nextRequest s,
         if isConfigured (webSearchClient (visionAnalyzer s))
         then K_findAnswer_web a ragResults else K_findAnswer_reason a)]
   \<and> list_ex is_reasoner_request
         (new_effects s (findAnswer_webDone a ragResults (Inr webSearchResults) s))
       = (\<not> usable_web webSearchResults)"
proof -
  assume miss: "no_hit s ragResults"
  have hqd: "handleQuestionDetected_resume qd (Inr ragResults) s =
      s\<lparr>manualOverride := True,
        currentQuestion := map_option (\<lambda>q. q\<lparr>q_status := ''uncertain'',
            q_uncertainty := Some (not_in_knowledge_base (qd_question qd))\<rparr>) (currentQuestion s),
        trace := trace s @
          IoEmit (Io_ai_reasoning (currentExamType s) (length ragResults)) #
          Logger_log (loggerState s) LInfo ''Searching online for answer:'' @
          Logger_log (loggerState s) LWarn ''AI uncertainty detected:'' @
          [IoEmit (Io_ai_uncertainty (not_in_knowledge_base (qd_question qd))),
           IoEmit (Io_manual_override_changed True)] @
          Logger_log (loggerState s) LInfo ''Manual override enabled''\<rparr>"
    using miss
    by (cases ragResults)
       (simp_all add: no_hit_def handleQuestionDetected_resume_def searchOnlineForAnswer_def
          handleUncertainty_eq prims Let_def)
  have rag_plain: "\<not> isConfigured (webSearchClient (visionAnalyzer s)) \<Longrightarrow>
      findAnswer_ragDone a (Inr ragResults) s =
        suspend (reasoning_request a ragResults []) (K_findAnswer_reason a) s"
    using miss by (auto simp add: no_hit_def findAnswer_ragDone_def findAnswer_reason_def)
  have rag_web: "isConfigured (webSearchClient (visionAnalyzer s)) \<Longrightarrow>
      findAnswer_ragDone a (Inr ragResults) s =
        suspend (WebSearch (question_text a) (an_question_type a)) (K_findAnswer_web a ragResults) s"
    using miss by (auto simp add: no_hit_def findAnswer_ragDone_def)
  have web_miss: "\<not> usable_web webSearchResults \<Longrightarrow>
      findAnswer_webDone a ragResults (Inr webSearchResults) s =
        suspend (reasoning_request a ragResults webSearchResults) (K_findAnswer_reason a)
          (if webSearchResults \<noteq> [] \<and> 6 / 10 < wr_confidence (hd webSearchResults)
           then logger LInfo ''Answer found via web search:'' s else s)"
    by (auto simp add: usable_web_def findAnswer_webDone_def findAnswer_reason_def Let_def)
  have web_hit: "usable_web webSearchResults \<Longrightarrow>
      \<not> list_ex is_reasoner_request
          (new_effects s (findAnswer_webDone a ragResults (Inr webSearchResults) s))"
  proof -
    assume u: "usable_web webSearchResults"
    define ad where "ad = \<lparr>ad_answer = wr_extractedAnswer (hd webSearchResults),
        ad_confidence = Some (wr_confidence (hd webSearchResults)), ad_source = ''web_search''\<rparr>"
    define s1 where "s1 =
        emit_va (Va_answer_found ad) (logger LInfo ''Answer found via web search:'' s)"
    have ts1: "trace s1 =
        trace s @ Logger_log (loggerState s) LInfo ''Answer found via web search:'' @
          [VaEmit (Va_answer_found ad)]"
      by (simp add: s1_def prims)
    have eq: "findAnswer_webDone a ragResults (Inr webSearchResults) s =
        handleRemotelyScreenshot_finish a (handleAnswerFound ad s1)"
      using u
      by (simp add: usable_web_def findAnswer_webDone_def findAnswer_found_def Let_def
            ad_def s1_def)
    have "new_effects s (findAnswer_webDone a ragResults (Inr webSearchResults) s) =
        Logger_log (loggerState s) LInfo ''Answer found via web search:'' @
          [VaEmit (Va_answer_found ad)]
          @ new_effects s1 (handleAnswerFound ad s1) @ [IoEmit (Io_screen_analysis a)]"
      by (simp add: eq handleRemotelyScreenshot_finish_def emit_io_def effects_def
            new_effects_def [of s] trace_handleAnswerFound [of ad s1] ts1)
    then show ?thesis
      using handleAnswerFound_no_reasoner [of s1 ad] by simp
  qed
  show ?thesis
    using rag_plain rag_web web_miss web_hit
    by (cases "isConfigured (webSearchClient (visionAnalyzer s))";
        cases "usable_web webSearchResults")
       (simp_all add: hqd new_effects_def suspend_def logger_def effects_def
          reasoning_request_def)
qed

theorem no_hit_goes_uncertain_witness:
  "no_hit resolving_taker []
   \<and> map_option q_status (currentQuestion resolving_taker) = Some ''analyzing''
   \<and> map_option q_status
        (currentQuestion (handleQuestionDetected_resume paris_data (Inr []) resolving_taker)) =
       Some ''uncertain''
   \<and> IoEmit (Io_ai_uncertainty (not_in_knowledge_base ''Capital of France?''))
       \<in> set (new_effects resolving_taker
                 (handleQuestionDetected_resume paris_data (Inr []) resolving_taker))
   \<and> manualOverride (handleQuestionDetected_resume paris_data (Inr []) resolving_taker)
   \<and> pending (handleQuestionDetected_resume paris_data (Inr []) resolving_taker) =
       pending resolving_taker"
proof -
  have miss: "no_hit resolving_taker []"
    by (simp add: no_hit_def)
  have before: "map_option q_status (currentQuestion resolving_taker) = Some ''analyzing''"
    by code_simp
  then obtain q where q: "currentQuestion resolving_taker = Some q"
    by (cases "currentQuestion resolving_taker") simp_all
  from no_hit_goes_uncertain [OF miss, of paris_data] miss before show ?thesis
    by (simp add: q paris_data_def)
qed

text \<open>
  The claim fails in the session \<open>bare_taker\<close>, whose question has no options: when its
  knowledge search returns nothing the question is marked uncertain and override is on,
  nothing is left suspended, and the whole trace holds no request to the Reasoner.
\<close>

theorem reasoner_counterexample:
  "(let r = reaction (Response 1 (RagResults [])) bare_taker
    in map_option q_status (current r) = Some ''uncertain'' \<and> override_after r \<and> waiting r = [])
   \<and> reasoner_attempted (step (Response 1 (RagResults [])) bare_taker) = False"
  by code_simp

text \<open>
  C5, as the code has it. A knowledge search that fails, in \<open>handleQuestionDetected\<close> or in
  \<open>findAnswer\<close>, and a Reasoner call that fails are caught and go straight to uncertainty:
  the error is logged, an \<open>ai_uncertainty\<close> event carrying the error message is emitted,
  override is switched on and no further stage is requested. Only a failing web search is
  taken as no result: it is logged as an error, which the logger passes on to the
  observers as a \<open>debug_log\<close> line when its level and socket allow, and the Reasoner is
  requested next; no \<open>ai_uncertainty\<close> event is emitted and the override flag stays as it
  was.
\<close>

theorem failed_lookup_goes_uncertain:
  "new_effects s (handleQuestionDetected_resume qd (Inl err) s) =
     Logger_log (loggerState s) LError ''Error handling question detection:'' @
     Logger_log (loggerState s) LWarn ''AI uncertainty detected:'' @
     [IoEmit (Io_ai_uncertainty (detection_failed qd err)),
      IoEmit (Io_manual_override_changed True)] @
     Logger_log (loggerState s) LInfo ''Manual override enabled''
   \<and> pending (handleQuestionDetected_resume qd (Inl err) s) = pending s
   \<and> manualOverride (handleQuestionDetected_resume qd (Inl err) s)
   \<and> new_effects s (findAnswer_ragDone a (Inl err) s) =
       Logger_log (loggerState s) LError ''Error finding answer:'' @
       VaEmit (Va_uncertainty (search_failed a err)) #
       Logger_log (loggerState s) LWarn ''AI uncertainty detected:'' @
       [IoEmit (Io_ai_uncertainty (search_failed a err)),
        IoEmit (Io_manual_override_changed True)] @
       Logger_log (loggerState s) LInfo ''Manual override enabled'' @
       [IoEmit (Io_screen_analysis a)]
   \<and> pending (findAnswer_ragDone a (Inl err) s) = pending s
   \<and> manualOverride (findAnswer_ragDone a (Inl err) s)
   \<and> new_effects s (findAnswer_reasonDone a (Inl err) s) =
       new_effects s (findAnswer_ragDone a (Inl err) s)
   \<and> pending (findAnswer_reasonDone a (Inl err) s) = pending s
   \<and> manualOverride (findAnswer_reasonDone a (Inl err) s)
   \<and> new_effects s (findAnswer_webDone a ragResults (Inl err) s) =
       Logger_log (loggerState s) LError ''Web search failed:'' @
       [Request (nextRequest s) (reasoning_request a ragResults [])]
   \<and> pending (findAnswer_webDone a ragResults (Inl err) s) =
       pending s @ [(nextRequest s, K_findAnswer_reason a)]
   \<and> manualOverride (findAnswer_webDone a ragResults (Inl err) s) = manualOverride s"
  by (simp add: handleQuestionDetected_resume_def findAnswer_ragDone_def
        findAnswer_reasonDone_def findAnswer_webDone_def findAnswer_reason_def
        findAnswer_failed_eq handleUncertainty_eq new_effects_def prims)

theorem failed_lookup_goes_uncertain_witness:
  "manualOverride (handleQuestionDetected_resume paris_data (Inl ''timeout'') fresh_taker)
   \<and> pending (findAnswer_ragDone paris_analysis (Inl ''timeout'') fresh_taker) = []
   \<and> pending (findAnswer_webDone paris_analysis [] (Inl ''timeout'') fresh_taker) =
       [(0, K_findAnswer_reason paris_analysis)]
   \<and> manualOverride (findAnswer_webDone paris_analysis [] (Inl ''timeout'') fresh_taker) = False"
  using failed_lookup_goes_uncertain [of fresh_taker paris_data "''timeout''" paris_analysis "[]"]
  by (simp add: fresh_taker_def new_ExamTaker_def)

text \<open>
  The claim fails in the session \<open>resolving_taker\<close>, where the exam taker's knowledge
  search is request 1 and the analyzer's is request 2. When the first times out, the
  question is marked uncertain with the error sent to the observers, and the online
  search is not tried. When the second times out, the same happens and no request
  follows, although the Reasoner was still untried: had the search returned no result
  instead, the Reasoner would have been requested.
\<close>

theorem failed_lookup_counterexample:
  "(let r = reaction (Response 1 (Rejected ''timeout'')) resolving_taker
    in map_option q_status (current r) = Some ''uncertain''
       \<and> IoEmit (Io_ai_uncertainty (detection_failed paris_data ''timeout'')) \<in> set (added r)
       \<and> (Log LInfo ''Searching online for answer:'' \<in> set (added r)) = False)
   \<and> (let r = reaction (Response 2 (Rejected ''timeout'')) resolving_taker
       in map_option q_status (current r) = Some ''uncertain''
          \<and> IoEmit (Io_ai_uncertainty (search_failed paris_analysis ''timeout'')) \<in> set (added r)
          \<and> list_ex is_request (added r) = False)
   \<and> (let r = reaction (Response 2 (RagResults [])) resolving_taker
       in list_ex is_reasoner_request (added r))"
  by code_simp

section \<open>The detection floor\<close>

text \<open>
  C6, as the code has it. A screen report whose confidence is below the floor of 0.5 is
  stored as the analyzer's last analysis, logged (an info line and a warning) and
  broadcast to the observers in a \<open>screen_analysis\<close> event. Nothing else happens: no
  question record, no
  \<open>question_detected\<close>, answer or uncertainty event, no request to a collaborator, no
  injection, and no other field changes.
\<close>

theorem below_floor_dropped:
  "js_lt (an_confidence a) (1 / 2) \<Longrightarrow>
   analyzeScreen_resume img (Inr a) s =
     s\<lparr>visionAnalyzer := (visionAnalyzer s)
          \<lparr>lastAnalysis := Some (a, img),
           analysisHistory := (if 10 < length (analysisHistory (visionAnalyzer s) @ [(a, img)])
                               then tl (analysisHistory (visionAnalyzer s) @ [(a, img)])
                               else analysisHistory (visionAnalyzer s) @ [(a, img)])\<rparr>,
       trace := trace s @
         Logger_log (loggerState s) LInfo ''Screen analysis completed:'' @
         Logger_log (loggerState s) LWarn ''Low confidence or no question detected:'' @
         [IoEmit (Io_screen_analysis a)]\<rparr>"
  by (simp add: analyzeScreen_resume_def processAnalysis_def handleRemotelyScreenshot_finish_def
        prims Let_def)

theorem below_floor_dropped_witness:
  "js_lt (an_confidence faint_analysis) (1 / 2)
   \<and> currentQuestion (analyzeScreen_resume ''img1'' (Inr faint_analysis) fresh_taker) = None
   \<and> pending (analyzeScreen_resume ''img1'' (Inr faint_analysis) fresh_taker) = []"
proof -
  have faint: "js_lt (an_confidence faint_analysis) (1 / 2)"
    by (simp add: js_lt_def faint_analysis_def)
  from below_floor_dropped [OF faint, of "''img1''" fresh_taker] faint show ?thesis
    by (simp add: fresh_taker_def new_ExamTaker_def)
qed

text \<open>
  The claim fails in the session \<open>watching_taker\<close>: the report \<open>faint_analysis\<close>, of
  confidence 0.3, is sent to the observers in an event.
\<close>

theorem below_floor_counterexample:
  "js_lt (an_confidence faint_analysis) (1 / 2)
   \<and> (let r = reaction (Response 0 (Analysed faint_analysis)) watching_taker
       in IoEmit (Io_screen_analysis faint_analysis) \<in> set (added r))"
  by code_simp

section \<open>Failed execution\<close>

text \<open>
  C7, as the code has it. When the execution of an answered question fails before the
  click (the coordinate call fails, the model is not confident, or it gives no
  coordinates), the question's status becomes \<open>uncertain\<close> with the error recorded on it,
  its chosen answer is kept, override is switched on, nothing is injected, and the history
  is unchanged: the question is not appended to it.
\<close>

theorem failed_execution_uncertain:
  "execution_error resp = Some msg \<Longrightarrow> currentQuestion s = Some q \<Longrightarrow>
   currentQuestion (executeAnswer_resume ad resp s) =
     Some (q\<lparr>q_status := ''uncertain'', q_uncertainty := Some (execution_failed (Some q) msg)\<rparr>)
   \<and> map_option q_answer (currentQuestion (executeAnswer_resume ad resp s)) = Some (q_answer q)
   \<and> manualOverride (executeAnswer_resume ad resp s)
   \<and> questionHistory (executeAnswer_resume ad resp s) = questionHistory s
   \<and> pending (executeAnswer_resume ad resp s) = pending s
   \<and> \<not> list_ex is_injection (new_effects s (executeAnswer_resume ad resp s))"
  by (cases resp)
     (auto simp add: execution_error_def executeAnswer_resume_def executeAnswer_failed_def
        handleUncertainty_eq new_effects_def prims Let_def
        split: if_splits option.splits)

theorem failed_execution_uncertain_witness:
  "execution_error (Inr nowhere_located) = Some ''Could not determine click coordinates for answer''
   \<and> currentQuestion (fresh_taker\<lparr>currentQuestion := Some paris_question\<rparr>) = Some paris_question
   \<and> map_option q_answer
       (currentQuestion (executeAnswer_resume low_answer (Inr nowhere_located)
          (fresh_taker\<lparr>currentQuestion := Some paris_question\<rparr>))) = Some (Some ''Paris'')
   \<and> questionHistory (executeAnswer_resume low_answer (Inr nowhere_located)
        (fresh_taker\<lparr>currentQuestion := Some paris_question\<rparr>)) = []"
proof -
  have err: "execution_error (Inr nowhere_located) =
      Some ''Could not determine click coordinates for answer''"
    by (simp add: execution_error_def nowhere_located_def js_lt_def)
  have cur: "currentQuestion (fresh_taker\<lparr>currentQuestion := Some paris_question\<rparr>) =
      Some paris_question"
    by simp
  from failed_execution_uncertain [OF err cur, of low_answer] err show ?thesis
    by (simp add: paris_question_def fresh_taker_def new_ExamTaker_def)
qed

text \<open>
  The claim fails in the session \<open>executing_taker\<close>: when no coordinates are found for its
  answered question, the status recorded is \<open>uncertain\<close>, not \<open>abandoned\<close>, and the history
  stays empty.
\<close>

theorem abandoned_counterexample:
  "(let r = reaction (Response 4 (Located nowhere_located)) executing_taker
    in map_option q_status (current r) = Some ''uncertain''
       \<and> map_option q_answer (current r) = Some (Some ''Paris'')
       \<and> override_after r \<and> history r = [])
   \<and> ''uncertain'' \<noteq> ''abandoned''"
  by code_simp

section \<open>Screenshots in flight\<close>

text \<open>
  C8, as the code has it. There is no queue. While the exam is active and override is off,
  every arriving screenshot is handed to the analyzer at once, whatever is still in
  flight: a run of screenshots with no answer in between sends one vision request per
  screenshot, in order, and leaves one suspended interpretation per screenshot. None is
  held back and none is dropped.
\<close>

theorem screenshots_all_in_flight:
  "isActive s \<Longrightarrow> \<not> manualOverride s \<Longrightarrow>
   run (map Screenshot imgs) s =
     s\<lparr>lastScreenshot := (if imgs = [] then lastScreenshot s else Some (last imgs)),
       trace := trace s @ screenshot_effects (loggerState s) (nextRequest s) imgs,
       pending := pending s @ screenshot_pending (nextRequest s) imgs,
       nextRequest := nextRequest s + length imgs\<rparr>"
proof (induction imgs arbitrary: s)
  case Nil
  then show ?case by simp
next
  case (Cons img imgs)
  let ?s1 = "step (Screenshot img) s"
  have s1: "?s1 = s\<lparr>lastScreenshot := Some img,
       trace := trace s @ IoEmit (Io_screenshot img) #
                Logger_log (loggerState s) LInfo ''Starting screen analysis...'' @
                [Request (nextRequest s) (AnalyzeExamScreen img)],
       pending := pending s @ [(nextRequest s, K_analyzeScreen img)],
       nextRequest := Suc (nextRequest s)\<rparr>"
    using Cons.prems by (rule step_Screenshot_active)
  have "isActive ?s1" and "\<not> manualOverride ?s1"
    using Cons.prems by (simp_all add: s1)
  from Cons.IH [OF this] show ?case
    by (simp add: s1)
qed

theorem screenshots_all_in_flight_witness:
  "isActive started_taker \<and> \<not> manualOverride started_taker
   \<and> pending (run (map Screenshot [''img1'', ''img2'', ''img3'']) started_taker) =
       [(0, K_analyzeScreen ''img1''), (1, K_analyzeScreen ''img2''), (2, K_analyzeScreen ''img3'')]"
proof -
  have on: "isActive started_taker" and off: "\<not> manualOverride started_taker"
    using started_facts by simp_all
  from screenshots_all_in_flight [OF on off, of "[''img1'', ''img2'', ''img3'']"] on off
  show ?thesis
    using started_facts by simp
qed

text \<open>
  The claim fails in the session \<open>started_taker\<close>: two screenshots in a row are both being
  interpreted at once, and when both are answered with a question, both questions are
  being resolved at once, each waiting for its own knowledge search.
\<close>

theorem queue_counterexample:
  "pending (run [Screenshot ''img1'', Screenshot ''img2''] started_taker) =
     [(0, K_analyzeScreen ''img1''), (1, K_analyzeScreen ''img2'')]
   \<and> map fst (pending (run [Screenshot ''img1'', Screenshot ''img2'',
         Response 0 (Analysed bare_analysis), Response 1 (Analysed bare_analysis)] started_taker)) =
       [2, 3]
   \<and> list_all (\<lambda>p. case snd p of K_handleQuestionDetected qd \<Rightarrow> True | _ \<Rightarrow> False)
       (pending (run [Screenshot ''img1'', Screenshot ''img2'',
         Response 0 (Analysed bare_analysis), Response 1 (Analysed bare_analysis)] started_taker))"
  by code_simp

section \<open>Starting and stopping\<close>

text \<open>
  C9. Stopping twice leaves the state that stopping once leaves, but for the trace, where
  the \<open>exam_stopped\<close> event and its log line appear once more: the exam is inactive and the
  history is the one before the first stop.
\<close>

theorem stopExam_idempotent:
  "stopExam (stopExam s) =
     (stopExam s)\<lparr>trace := trace (stopExam s) @
        IoEmit (Io_exam_stopped (examId s) (length (questionHistory s))) #
        Logger_log (loggerState s) LInfo ''Exam stopped. Questions answered:''\<rparr>
   \<and> isActive (stopExam s) = False
   \<and> questionHistory (stopExam s) = questionHistory s"
  by (cases "screenshotInterval s") (simp_all add: stopExam_def prims Let_def)

text \<open>
  C10. \<open>startExam\<close> succeeds exactly when the exam taker is connected, and then it empties
  the history, sets the active flag and assigns the next id of the generator as the exam
  id.
\<close>

theorem startExam_resets_history:
  "(\<exists>uid. snd (startExam s) = Inr uid) = connected s
   \<and> (connected s \<longrightarrow>
        snd (startExam s) = Inr (uuidSupply s)
        \<and> questionHistory (fst (startExam s)) = []
        \<and> isActive (fst (startExam s))
        \<and> examId (fst (startExam s)) = Some (uuidSupply s)
        \<and> uuidSupply (fst (startExam s)) = Suc (uuidSupply s))"
  by (simp add: startExam_def prims Let_def)

theorem startExam_resets_history_witness:
  "connected answered_taker \<and> length (questionHistory answered_taker) = 1
   \<and> questionHistory (fst (startExam answered_taker)) = []
   \<and> isActive (fst (startExam answered_taker))"
proof -
  have before: "connected answered_taker \<and> length (questionHistory answered_taker) = 1"
    by code_simp
  with startExam_resets_history [of answered_taker] show ?thesis
    by blast
qed

end
